theory Spec2Isabelle
  imports Main "HOL-Library.Word"
begin

section \<open>Filter compilation for Elasticsearch (package es2gen, bridgeutil.go)\<close>

text \<open>
  A shallow embedding of \<^verbatim>\<open>generators/elasticsearch/es2gen/bridgeutil.go\<close>:
  the scalar extractor \<^verbatim>\<open>scalar\<close>, the field resolver \<^verbatim>\<open>esName\<close> and the four
  filter builders \<^verbatim>\<open>makeRange\<close>, \<^verbatim>\<open>makeBetween\<close>, \<^verbatim>\<open>makeWildcard\<close> and
  \<^verbatim>\<open>makeTimeWindowQuery\<close>.

  Go's two results \<^verbatim>\<open>(x, err)\<close> are kept as a pair of options: \<open>(Some x, None)\<close> is
  \<^verbatim>\<open>return x, nil\<close> and \<open>(None, Some e)\<close> is \<^verbatim>\<open>return nil, e\<close>.
\<close>

subsection \<open>Values held by an \<^verbatim>\<open>interface{}\<close>\<close>

type_synonym int64 = "64 word"

text \<open>
  The dynamic values that flow through the builders. \<open>'f\<close> stands for \<^verbatim>\<open>float64\<close>;
  nothing in this file computes with floats, they are only parsed (by the standard
  library) and passed on. \<open>VNil\<close> is the nil interface, which is also the value of a
  bound of \<^verbatim>\<open>RangeQry\<close> that a struct literal leaves out.
\<close>

datatype 'f val = VNil | VString string | VInt64 int64 | VFloat64 'f | VBool bool

subsection \<open>Expression nodes (package expr, consumed only)\<close>

text \<open>
  \<^verbatim>\<open>value.ValueType\<close>: the five runtime types \<^verbatim>\<open>scalar\<close> names, the nil type, and
  every other type tag by its number.
\<close>

datatype ValueType =
  BoolType | IntType | StringType | TimeType | NumberType | NilType | OtherType nat

text \<open>
  The node kinds \<^verbatim>\<open>scalar\<close> and \<^verbatim>\<open>esName\<close> switch on.
  \<^item> \<open>StringNode text\<close>: \<^verbatim>\<open>n.Text\<close>.
  \<^item> \<open>NumberNode isInt i f\<close>: \<^verbatim>\<open>n.IsInt\<close>, \<^verbatim>\<open>n.Int64\<close>, \<^verbatim>\<open>n.Float64\<close>.
  \<^item> \<open>ValueNode ty str fl\<close>: \<^verbatim>\<open>n.Value.Type()\<close>, the rendering \<^verbatim>\<open>n.String()\<close>, and the
    outcome of the type assertion \<^verbatim>\<open>n.Value.(floatval)\<close>: \<open>None\<close> when the value has no
    \<^verbatim>\<open>Float()\<close> method, \<open>Some f\<close> when it has one and \<^verbatim>\<open>Float()\<close> returns \<open>f\<close>.
  \<^item> \<open>IdentityNode text orig lr\<close>: \<^verbatim>\<open>n.Text\<close>, \<^verbatim>\<open>n.OriginalText()\<close>,
    \<^verbatim>\<open>n.HasLeftRight()\<close>.
  \<^item> \<open>OtherNode name\<close>: a node of any other kind (null, function, binary, ...), by the
    name of its Go type.
\<close>

datatype 'f Node =
  StringNode string
| NumberNode bool int64 'f
| ValueNode ValueType string "'f option"
| IdentityNode string string bool
| OtherNode string

subsection \<open>Tokens (package lex, consumed only)\<close>

datatype TokenType = TokenGE | TokenLE | TokenGT | TokenLT | TokenOther nat

subsection \<open>Field descriptors and mappers (package gentypes, consumed only)\<close>

text \<open>
  \<^verbatim>\<open>gentypes.FieldType\<close>. The package is not part of this file, so its four methods
  are fields of the record: \<open>Nested\<close> and \<open>Numeric\<close> are the results of
  \<^verbatim>\<open>lhs.Nested()\<close> and \<^verbatim>\<open>lhs.Numeric()\<close>, \<open>PrefixAndValue\<close> and \<open>PathAndPrefix\<close> are
  the methods as functions of their argument. \<open>Field_ft\<close> is the struct field
  \<^verbatim>\<open>Field\<close>.
\<close>

record 'f FieldType =
  Field_ft :: string
  Path :: string
  Nested :: bool
  Numeric :: bool
  PrefixAndValue :: "'f val \<Rightarrow> string \<times> 'f val"
  PathAndPrefix :: "string \<Rightarrow> string"

text \<open>\<^verbatim>\<open>gentypes.FieldMapper\<close>: \<open>m name\<close> is \<^verbatim>\<open>m.Map(name)\<close>, \<open>None\<close> when \<^verbatim>\<open>ok\<close> is false.\<close>

type_synonym 'f FieldMapper = "string \<Rightarrow> 'f FieldType option"

subsection \<open>Errors\<close>

text \<open>
  The four errors of this file:
  \<^item> \<open>InvalidNode n\<close>: \<^verbatim>\<open>"qlindex: expected an identity but found %T (%s)"\<close>;
  \<^item> \<open>MissingField name\<close>: \<^verbatim>\<open>gentypes.MissingField(name)\<close>;
  \<^item> \<open>UnsupportedType n\<close>: \<^verbatim>\<open>"qlindex: unsupported type for comparison: %T"\<close>;
  \<^item> \<open>UnsupportedOperator op\<close>: \<^verbatim>\<open>"qlindex: unsupported range operator %s"\<close>.
\<close>

datatype 'f error =
  InvalidNode "'f Node"
| MissingField string
| UnsupportedType "'f Node"
| UnsupportedOperator TokenType

subsection \<open>The filter DSL (package es2gen, declared beside this file)\<close>

text \<open>
  \<^verbatim>\<open>RangeQry\<close>: the four bounds of a range, each an \<^verbatim>\<open>interface{}\<close>. A bound left
  out of the struct literal is nil.
\<close>

record 'f RangeQry =
  GTE :: "'f val"
  LTE :: "'f val"
  GT :: "'f val"
  LT :: "'f val"

text \<open>
  Modelled from the spec: the filter types \<^verbatim>\<open>term\<close>, \<^verbatim>\<open>RangeFilter\<close>, \<^verbatim>\<open>and\<close>,
  \<^verbatim>\<open>nested\<close>/\<^verbatim>\<open>NestedFilter\<close> and \<^verbatim>\<open>wildcard\<close> are declared elsewhere in package
  es2gen. Following the spec's data model they are the variants \<open>Term{field, value}\<close>,
  \<open>RangeFilter{field -> bounds}\<close>, \<open>And{clauses}\<close>, \<open>Nested{path, filter}\<close> and
  \<open>Wildcard{field, pattern}\<close>.
  \<^item> \<open>Term field v\<close>: the value \<^verbatim>\<open>Term(field, v)\<close> builds.
  \<^item> \<open>RangeFilter kvs\<close>: the map \<^verbatim>\<open>Range\<close> as the list of its entries (every literal in
    this file has one entry).
  \<^item> \<open>NestedFilter f p\<close>: \<^verbatim>\<open>&nested{&NestedFilter{Filter: f, Path: p}}\<close>.
  \<^item> \<open>WildcardFilter field pattern\<close>: the struct \<^verbatim>\<open>wildcard\<close> holding \<open>pattern\<close> for
    \<open>field\<close>.
\<close>

datatype 'f esFilter =
  Term string "'f val"
| RangeFilter "(string \<times> 'f RangeQry) list"
| And "'f esFilter list"
| NestedFilter "'f esFilter" string
| WildcardFilter string string

text \<open>
  The helper \<^verbatim>\<open>Nested(lhs, filter)\<close> of package es2gen, which \<^verbatim>\<open>makeRange\<close> calls for a
  nested field, is declared beside this file. It puts the term \<open>lhs.Path.k = lhs.Field\<close>
  in front of the filter, in a conjunction, and wraps the conjunction in an envelope with
  \<^verbatim>\<open>lhs.Path\<close>: the shape
  \<^verbatim>\<open>{"nested": {"path": parent, "filter": {"and": [{"term": {parent + ".k": child}}, {"range": ...}]}}}\<close>
  of the comment inside \<^verbatim>\<open>makeRange\<close>.
\<close>

definition NestedEnvelope :: "'f FieldType \<Rightarrow> 'f esFilter \<Rightarrow> 'f esFilter" where
  "NestedEnvelope lhs f =
     NestedFilter (And [Term (Path lhs @ ''.k'') (VString (Field_ft lhs)), f]) (Path lhs)"

text \<open>
  The helper \<^verbatim>\<open>Wildcard(field, value)\<close> of package es2gen, which \<^verbatim>\<open>makeWildcard\<close> calls,
  is declared beside this file. It does not store the pattern as given: a pattern that
  is not empty and neither begins nor ends with \<open>*\<close> is put between two \<open>*\<close>
  (\<open>hel\<close> becomes \<open>*hel*\<close>); an empty pattern and a pattern that begins or ends with
  \<open>*\<close> are kept.
\<close>

definition wcFunc :: "string \<Rightarrow> string" where
  "wcFunc v =
     (if length v < 1 then v
      else if v ! 0 = CHR ''*'' \<or> v ! (length v - 1) = CHR ''*'' then v
      else ''*'' @ v @ ''*'')"

definition Wildcard :: "string \<Rightarrow> string \<Rightarrow> 'f esFilter" where
  "Wildcard field v = WildcardFilter field (wcFunc v)"

subsection \<open>Standard library functions\<close>

text \<open>
  \<^verbatim>\<open>strconv.ParseBool\<close>: accepts 1, t, T, TRUE, true, True, 0, f, F, FALSE, false,
  False; any other string is an error (\<open>None\<close>).
\<close>

definition ParseBool :: "string \<Rightarrow> bool option" where
  "ParseBool str =
     (if str \<in> set [''1'', ''t'', ''T'', ''TRUE'', ''true'', ''True''] then Some True
      else if str \<in> set [''0'', ''f'', ''F'', ''FALSE'', ''false'', ''False''] then Some False
      else None)"

text \<open>
  \<^verbatim>\<open>strings.SplitN(s, sep, 2)\<close> for a separator of one byte: \<open>s\<close> itself when the
  separator does not occur, otherwise the text before its first occurrence and the text
  after it.
\<close>

definition SplitN2 :: "string \<Rightarrow> char \<Rightarrow> string list" where
  "SplitN2 s sep =
     (if sep \<in> set s
      then [takeWhile (\<lambda>c. c \<noteq> sep) s, tl (dropWhile (\<lambda>c. c \<noteq> sep) s)]
      else [s])"

text \<open>
  \<^verbatim>\<open>strconv.FormatInt(i, base)\<close>: the digits of the magnitude, most significant
  first, after a minus sign when \<open>i\<close> is negative. \<open>digitsOf\<close> stops at once on a base
  below 2, where Go panics; this file only uses base 10.
\<close>

definition digitChar :: "nat \<Rightarrow> char" where
  "digitChar d = ''0123456789abcdefghijklmnopqrstuvwxyz'' ! d"

function digitsOf :: "nat \<Rightarrow> nat \<Rightarrow> string" where
  "digitsOf base u =
     (if base < 2 \<or> u < base then [digitChar u]
      else digitsOf base (u div base) @ [digitChar (u mod base)])"
  by pat_completeness auto
termination
  by (relation "measure (\<lambda>(base, u). u)") auto

declare digitsOf.simps [simp del]

definition FormatInt :: "int64 \<Rightarrow> nat \<Rightarrow> string" where
  "FormatInt i base =
     (if sint i < 0 then CHR ''-'' # digitsOf base (nat (- sint i))
      else digitsOf base (nat (sint i)))"

subsection \<open>scalar\<close>

text \<open>
  \<^verbatim>\<open>scalar(node)\<close>: the JSON-able value of a scalar node and whether there is one.
  A value node of type number without a \<^verbatim>\<open>Float()\<close> method returns \<^verbatim>\<open>nil, false\<close>;
  every other failure falls through to \<^verbatim>\<open>return "", false\<close>.
\<close>

fun scalar :: "'f Node \<Rightarrow> 'f val \<times> bool" where
  "scalar (StringNode text) = (VString text, True)"
| "scalar (NumberNode isInt i f) =
     (if isInt then (VInt64 i, True) else (VFloat64 f, True))"
| "scalar (ValueNode ty str fl) =
     (case ty of
        BoolType \<Rightarrow> (VString str, True)
      | IntType \<Rightarrow> (VString str, True)
      | StringType \<Rightarrow> (VString str, True)
      | TimeType \<Rightarrow> (VString str, True)
      | NumberType \<Rightarrow>
          (case fl of None \<Rightarrow> (VNil, False) | Some f \<Rightarrow> (VFloat64 f, True))
      | _ \<Rightarrow> (VString [], False))"
| "scalar (IdentityNode text orig lr) =
     (case ParseBool text of
        Some b \<Rightarrow> (VString text, True)
      | None \<Rightarrow> (VString [], False))"
| "scalar (OtherNode name) = (VString [], False)"

subsection \<open>esName\<close>

text \<open>
  \<^verbatim>\<open>esName(m, n)\<close>: the field descriptor of an identity node. The three lookups are
  written as the source has them, one after the other.
\<close>

definition esName ::
  "'f FieldMapper \<Rightarrow> 'f Node \<Rightarrow> 'f FieldType option \<times> 'f error option" where
  "esName m n =
     (case n of
        IdentityNode text orig lr \<Rightarrow>
          (case m text of
             Some ft \<Rightarrow> (Some ft, None)
           | None \<Rightarrow>
               (case (if lr then m orig else None) of
                  Some ft \<Rightarrow> (Some ft, None)
                | None \<Rightarrow>
                    (let parts = SplitN2 text CHR ''.'' in
                     case (if length parts = 2 then m (parts ! 0) else None) of
                       Some ft \<Rightarrow> (Some ft, None)
                     | None \<Rightarrow> (None, Some (MissingField orig)))))
      | _ \<Rightarrow> (None, Some (InvalidNode n)))"

subsection \<open>makeRange\<close>

text \<open>
  \<^verbatim>\<open>makeRange(lhs, op, rhs)\<close>. \<^verbatim>\<open>strconv.ParseFloat(s, 64)\<close> is the first argument:
  \<open>None\<close> when it returns an error, \<open>Some f\<close> when it returns \<open>f\<close> and no error.
  The steps are the source's: extract the scalar, coerce it for a numeric field, qualify
  field and value for a nested field, build the range for the operator, wrap it for a
  nested field.
\<close>

definition makeRange ::
  "(string \<Rightarrow> 'f option) \<Rightarrow> 'f FieldType \<Rightarrow> TokenType \<Rightarrow> 'f Node
     \<Rightarrow> 'f esFilter option \<times> 'f error option" where
  "makeRange ParseFloat lhs op rhs =
     (let (rhsval, ok) = scalar rhs in
      if \<not> ok then (None, Some (UnsupportedType rhs))
      else
        let rhsval =
              (if Numeric lhs then
                 (case rhsval of
                    VString rhsstr \<Rightarrow>
                      (case ParseFloat rhsstr of
                         Some rhsf \<Rightarrow> VFloat64 rhsf
                       | None \<Rightarrow> rhsval)
                  | _ \<Rightarrow> rhsval)
               else rhsval);
            (fieldName, rhsval) =
              (if Nested lhs then PrefixAndValue lhs rhsval else (Field_ft lhs, rhsval))
        in
          case
            (case op of
               TokenGE \<Rightarrow>
                 Some (RangeFilter
                   [(fieldName, \<lparr>GTE = rhsval, LTE = VNil, GT = VNil, LT = VNil\<rparr>)])
             | TokenLE \<Rightarrow>
                 Some (RangeFilter
                   [(fieldName, \<lparr>GTE = VNil, LTE = rhsval, GT = VNil, LT = VNil\<rparr>)])
             | TokenGT \<Rightarrow>
                 Some (RangeFilter
                   [(fieldName, \<lparr>GTE = VNil, LTE = VNil, GT = rhsval, LT = VNil\<rparr>)])
             | TokenLT \<Rightarrow>
                 Some (RangeFilter
                   [(fieldName, \<lparr>GTE = VNil, LTE = VNil, GT = VNil, LT = rhsval\<rparr>)])
             | TokenOther k \<Rightarrow> None)
          of
            None \<Rightarrow> (None, Some (UnsupportedOperator op))
          | Some r \<Rightarrow>
              if Nested lhs then (Some (NestedEnvelope lhs r), None) else (Some r, None))"

subsection \<open>makeBetween\<close>

definition makeBetween ::
  "'f FieldType \<Rightarrow> 'f val \<Rightarrow> 'f val \<Rightarrow> 'f esFilter option \<times> 'f error option" where
  "makeBetween lhs lower upper =
     (let lr = RangeFilter
                 [(Field_ft lhs, \<lparr>GTE = VNil, LTE = VNil, GT = lower, LT = VNil\<rparr>)];
          ur = RangeFilter
                 [(Field_ft lhs, \<lparr>GTE = VNil, LTE = VNil, GT = VNil, LT = upper\<rparr>)];
          fl = [lr, ur]
      in
        if Nested lhs then
          (Some (NestedFilter (And (fl @ [Term ''k'' (VString (Field_ft lhs))])) (Path lhs)),
           None)
        else (Some (And fl), None))"

subsection \<open>makeWildcard\<close>

definition makeWildcard ::
  "'f FieldType \<Rightarrow> string \<Rightarrow> 'f esFilter option \<times> 'f error option" where
  "makeWildcard lhs v =
     (let fieldName = (if Nested lhs then PathAndPrefix lhs v else Field_ft lhs);
          wc = Wildcard fieldName v
      in
        if Nested lhs then
          (Some (NestedFilter
                   (And [wc, Term (Path lhs @ ''.k'') (VString (Field_ft lhs))])
                   (Path lhs)),
           None)
        else (Some wc, None))"

subsection \<open>makeTimeWindowQuery\<close>

definition makeTimeWindowQuery ::
  "'f FieldType \<Rightarrow> int64 \<Rightarrow> int64 \<Rightarrow> int64 \<Rightarrow> 'f esFilter option \<times> 'f error option" where
  "makeTimeWindowQuery lhs threshold window ts =
     (let fl =
            [Term (Field_ft lhs @ ''.threshold'') (VString (FormatInt threshold 10)),
             Term (Field_ft lhs @ ''.window'') (VString (FormatInt window 10)),
             RangeFilter
               [(Field_ft lhs @ ''.enter'',
                 \<lparr>GTE = VNil, LTE = VInt64 ts, GT = VNil, LT = VNil\<rparr>)],
             RangeFilter
               [(Field_ft lhs @ ''.exit'',
                 \<lparr>GTE = VInt64 ts, LTE = VNil, GT = VNil, LT = VNil\<rparr>)]]
      in (Some (NestedFilter (And fl) (Field_ft lhs)), None))"

section \<open>The vocabulary of the theorems\<close>

text \<open>
  The definitions of this section are not translations of the source: they name what
  the theorems below say about it. The resolver \<open>resolveField\<close> follows the words of
  the specification.
\<close>

subsection \<open>Boolean literals\<close>

text \<open>The twelve texts that \<^verbatim>\<open>strconv.ParseBool\<close> accepts.\<close>

definition boolLiterals :: "string list" where
  "boolLiterals =
     [''1'', ''t'', ''T'', ''TRUE'', ''true'', ''True'']
     @ [''0'', ''f'', ''F'', ''FALSE'', ''false'', ''False'']"

subsection \<open>Field resolution as an ordered list of lookups\<close>

text \<open>The first name of a list that the mapper knows.\<close>

fun firstHit :: "(string \<Rightarrow> 'a option) \<Rightarrow> string list \<Rightarrow> 'a option" where
  "firstHit m [] = None"
| "firstHit m (name # names) =
     (case m name of Some ft \<Rightarrow> Some ft | None \<Rightarrow> firstHit m names)"

text \<open>
  The names the specification tries, in its order: the identifier's text; its original
  text, only for a namespaced identifier; the part before the first dot, only when the
  text splits into exactly two parts.
\<close>

definition lookupOrder :: "string \<Rightarrow> string \<Rightarrow> bool \<Rightarrow> string list" where
  "lookupOrder text orig lr =
     [text]
     @ (if lr then [orig] else [])
     @ (case SplitN2 text CHR ''.'' of [left, right] \<Rightarrow> [left] | _ \<Rightarrow> [])"

definition resolveField ::
  "'f FieldMapper \<Rightarrow> 'f Node \<Rightarrow> 'f FieldType option \<times> 'f error option" where
  "resolveField m n =
     (case n of
        IdentityNode text orig lr \<Rightarrow>
          (case firstHit m (lookupOrder text orig lr) of
             Some ft \<Rightarrow> (Some ft, None)
           | None \<Rightarrow> (None, Some (MissingField orig)))
      | _ \<Rightarrow> (None, Some (InvalidNode n)))"

subsection \<open>Range bounds\<close>

text \<open>
  The four bound keys of a range, and the \<^verbatim>\<open>RangeQry\<close> with exactly one of them
  assigned.
\<close>

datatype bound = BoundGTE | BoundLTE | BoundGT | BoundLT

definition oneBound :: "bound \<Rightarrow> 'f val \<Rightarrow> 'f RangeQry" where
  "oneBound b v =
     (case b of
        BoundGTE \<Rightarrow> \<lparr>GTE = v, LTE = VNil, GT = VNil, LT = VNil\<rparr>
      | BoundLTE \<Rightarrow> \<lparr>GTE = VNil, LTE = v, GT = VNil, LT = VNil\<rparr>
      | BoundGT \<Rightarrow> \<lparr>GTE = VNil, LTE = VNil, GT = v, LT = VNil\<rparr>
      | BoundLT \<Rightarrow> \<lparr>GTE = VNil, LTE = VNil, GT = VNil, LT = v\<rparr>)"

text \<open>
  A bound is populated when it is not nil; \<open>populated q\<close> lists the populated
  bounds of \<open>q\<close>.
\<close>

definition isSet :: "'f val \<Rightarrow> bool" where
  "isSet v = (case v of VNil \<Rightarrow> False | _ \<Rightarrow> True)"

definition populated :: "'f RangeQry \<Rightarrow> bound list" where
  "populated q =
     (if isSet (GTE q) then [BoundGTE] else [])
     @ (if isSet (LTE q) then [BoundLTE] else [])
     @ (if isSet (GT q) then [BoundGT] else [])
     @ (if isSet (LT q) then [BoundLT] else [])"

text \<open>
  The operator table of the range builder: \<open>>=\<close> gives GTE, \<open><=\<close> gives LTE,
  \<open>>\<close> gives GT, \<open><\<close> gives LT; no other operator is supported.
\<close>

definition boundOf :: "TokenType \<Rightarrow> bound option" where
  "boundOf op =
     (case op of
        TokenGE \<Rightarrow> Some BoundGTE
      | TokenLE \<Rightarrow> Some BoundLTE
      | TokenGT \<Rightarrow> Some BoundGT
      | TokenLT \<Rightarrow> Some BoundLT
      | TokenOther k \<Rightarrow> None)"

subsection \<open>The range builder, step by step\<close>

text \<open>
  Step 2, numeric coercion: for a numeric field, a string that parses as a float is
  replaced by the parsed float.
\<close>

definition numericCoercion ::
  "(string \<Rightarrow> 'f option) \<Rightarrow> 'f FieldType \<Rightarrow> 'f val \<Rightarrow> 'f val" where
  "numericCoercion parse lhs v =
     (case v of
        VString s \<Rightarrow>
          (if Numeric lhs then (case parse s of Some f \<Rightarrow> VFloat64 f | None \<Rightarrow> v) else v)
      | _ \<Rightarrow> v)"

text \<open>
  Step 3, qualification: for a nested field, field name and value are replaced via
  \<^verbatim>\<open>PrefixAndValue\<close>.
\<close>

definition qualify :: "'f FieldType \<Rightarrow> 'f val \<Rightarrow> string \<times> 'f val" where
  "qualify lhs v = (if Nested lhs then PrefixAndValue lhs v else (Field_ft lhs, v))"

text \<open>
  Steps 3 to 5 on a given value: qualify, build the range with the operator's bound,
  and for a nested field put the term \<open>lhs.Path.k = lhs.Field\<close> in front of it and wrap
  both in an envelope with \<^verbatim>\<open>lhs.Path\<close>.
\<close>

definition rangeFrom ::
  "'f FieldType \<Rightarrow> TokenType \<Rightarrow> 'f val \<Rightarrow> 'f esFilter option \<times> 'f error option" where
  "rangeFrom lhs op v =
     (case boundOf op of
        None \<Rightarrow> (None, Some (UnsupportedOperator op))
      | Some b \<Rightarrow>
          (let r = RangeFilter [(fst (qualify lhs v), oneBound b (snd (qualify lhs v)))]
           in if Nested lhs then
                (Some (NestedFilter
                   (And [Term (Path lhs @ ''.k'') (VString (Field_ft lhs)), r])
                   (Path lhs)),
                 None)
              else (Some r, None)))"

subsection \<open>Reading a filter\<close>

text \<open>
  The paths of all \<open>Nested\<close> envelopes of a filter, outermost first; whether the
  filter itself is an envelope; the entries of all its ranges, in order.
\<close>

fun envelopes :: "'f esFilter \<Rightarrow> string list" where
  "envelopes (Term field v) = []"
| "envelopes (RangeFilter kvs) = []"
| "envelopes (And clauses) = concat (map envelopes clauses)"
| "envelopes (NestedFilter f path) = path # envelopes f"
| "envelopes (WildcardFilter field pattern) = []"

fun isEnvelope :: "'f esFilter \<Rightarrow> bool" where
  "isEnvelope (NestedFilter f path) = True"
| "isEnvelope f = False"

fun rangeEntries :: "'f esFilter \<Rightarrow> (string \<times> 'f RangeQry) list" where
  "rangeEntries (Term field v) = []"
| "rangeEntries (RangeFilter kvs) = kvs"
| "rangeEntries (And clauses) = concat (map rangeEntries clauses)"
| "rangeEntries (NestedFilter f path) = rangeEntries f"
| "rangeEntries (WildcardFilter field pattern) = []"

subsection \<open>Reading a decimal string\<close>

text \<open>
  The number a decimal string denotes: an optional minus sign, then digits, most
  significant first.
\<close>

definition digitValue :: "char \<Rightarrow> nat" where
  "digitValue c = of_char c - 48"

definition natOfDigits :: "string \<Rightarrow> nat" where
  "natOfDigits ds = foldl (\<lambda>acc c. 10 * acc + digitValue c) 0 ds"

definition decimalValue :: "string \<Rightarrow> int" where
  "decimalValue s =
     (case s of
        [] \<Rightarrow> 0
      | c # ds \<Rightarrow> if c = CHR ''-'' then - int (natOfDigits ds) else int (natOfDigits s))"

section \<open>Example inputs\<close>

text \<open>
  A float parser that knows the text \<open>7\<close> (with \<^verbatim>\<open>float64\<close> as its IEEE 754 bit
  pattern), a flat numeric field, a nested numeric field of the map \<open>map_events\<close>, a
  time-bucket field, a nested field whose \<^verbatim>\<open>PrefixAndValue\<close> turns the string \<open>7\<close> into
  the integer 7, a nested field whose \<^verbatim>\<open>PrefixAndValue\<close> returns nil, and a mapper that
  knows the field \<open>key_name\<close> only.
\<close>

definition exParseFloat :: "string \<Rightarrow> 64 word option" where
  "exParseFloat s = (if s = ''7'' then Some 0x401C000000000000 else None)"

definition exFlat :: "64 word FieldType" where
  "exFlat =
     \<lparr>Field_ft = ''age'', Path = [], Nested = False, Numeric = True,
      PrefixAndValue = (\<lambda>v. (''age'', v)), PathAndPrefix = (\<lambda>p. ''age'')\<rparr>"

definition exNested :: "64 word FieldType" where
  "exNested =
     \<lparr>Field_ft = ''open'', Path = ''map_events'', Nested = True, Numeric = True,
      PrefixAndValue = (\<lambda>v. (''map_events.f'', v)),
      PathAndPrefix = (\<lambda>p. ''map_events.v'')\<rparr>"

definition exBucket :: "64 word FieldType" where
  "exBucket =
     \<lparr>Field_ft = ''timebucket_visits'', Path = [], Nested = False, Numeric = False,
      PrefixAndValue = (\<lambda>v. (''timebucket_visits'', v)),
      PathAndPrefix = (\<lambda>p. ''timebucket_visits'')\<rparr>"

definition exRewrite :: "64 word FieldType" where
  "exRewrite =
     \<lparr>Field_ft = ''visits'', Path = ''map_events'', Nested = True, Numeric = False,
      PrefixAndValue =
        (\<lambda>v. case v of
               VString s \<Rightarrow>
                 if s = ''7'' then (''map_events.i'', VInt64 7) else (''map_events.s'', v)
             | _ \<Rightarrow> (''map_events.f'', v)),
      PathAndPrefix = (\<lambda>p. ''map_events.s'')\<rparr>"

definition exNilValue :: "64 word FieldType" where
  "exNilValue =
     \<lparr>Field_ft = ''open'', Path = ''map_events'', Nested = True, Numeric = False,
      PrefixAndValue = (\<lambda>v. (''map_events.f'', VNil)),
      PathAndPrefix = (\<lambda>p. ''map_events.v'')\<rparr>"

definition exMapper :: "64 word FieldMapper" where
  "exMapper name = (if name = ''key_name'' then Some exNested else None)"

section \<open>Scalar extraction of identifiers\<close>

lemma if_chain_None:
  "((if A then Some True else if B then Some False else None) = None) = (\<not> (A \<or> B))"
  by simp

lemma ParseBool_None: "ParseBool str = None \<longleftrightarrow> str \<notin> set boolLiterals"
  unfolding boolLiterals_def ParseBool_def set_append Un_iff by (rule if_chain_None)

text \<open>
  C7, as the code has it: an identifier is a scalar exactly when
  \<^verbatim>\<open>strconv.ParseBool\<close> accepts its text, that is when the text is one of 1, t, T, TRUE,
  true, True, 0, f, F, FALSE, false, False; the text itself is then returned with
  \<open>ok = true\<close>, and every other identifier gives the empty string with \<open>ok = false\<close>.
\<close>

theorem scalar_identity_bool:
  "scalar (IdentityNode t orig lr) =
     (if t \<in> set boolLiterals then (VString t, True) else (VString [], False))"
proof (cases "ParseBool t")
  case None
  then show ?thesis using ParseBool_None [of t] by simp
next
  case (Some b)
  then have "t \<in> set boolLiterals" using ParseBool_None [of t] by simp
  with Some show ?thesis by simp
qed

text \<open>
  C7 as stated fails: the identifier \<open>t\<close> is accepted as a scalar although its text is
  neither \<open>true\<close> nor \<open>false\<close>.
\<close>

theorem scalar_identity_counterexample:
  "scalar (IdentityNode ''t'' ''t'' False :: 64 word Node) = (VString ''t'', True)
   \<and> ''t'' \<notin> {''true'', ''false''}"
  by (simp add: ParseBool_def)

section \<open>Field resolution\<close>

lemma SplitN2_hit:
  assumes "sep \<in> set s"
  shows "\<exists>l r. SplitN2 s sep = [l, r] \<and> s = l @ sep # r \<and> sep \<notin> set l"
proof -
  let ?l = "takeWhile (\<lambda>c. c \<noteq> sep) s"
  let ?d = "dropWhile (\<lambda>c. c \<noteq> sep) s"
  from assms have ne: "?d \<noteq> []" by (simp add: dropWhile_eq_Nil_conv)
  then have "hd ?d = sep" using hd_dropWhile [of "\<lambda>c. c \<noteq> sep" s] by simp
  with ne have d: "?d = sep # tl ?d" by (cases ?d) simp_all
  have "s = ?l @ ?d" by simp
  with d have 1: "s = ?l @ sep # tl ?d" by metis
  have 2: "sep \<notin> set ?l" by (auto dest: set_takeWhileD)
  have 3: "SplitN2 s sep = [?l, tl ?d]" using assms by (simp add: SplitN2_def)
  from 1 2 3 show ?thesis by blast
qed

lemma SplitN2_miss: "sep \<notin> set s \<Longrightarrow> SplitN2 s sep = [s]"
  by (simp add: SplitN2_def)

text \<open>
  C1: \<^verbatim>\<open>esName\<close> is the specification's resolver. A node that is not an identifier
  fails with \<open>InvalidNode\<close>; for an identifier the names of \<open>lookupOrder\<close> are tried in
  order (text, then original text if namespaced, then the part before the first dot if
  the text has one), the first hit is returned, and when none hits the error is
  \<open>MissingField\<close> of the original text.
\<close>

theorem esName_fallback_order: "esName m n = resolveField m n"
proof (cases n)
  case (IdentityNode t orig lr)
  show ?thesis
  proof (cases "CHR ''.'' \<in> set t")
    case True
    then obtain l r where "SplitN2 t CHR ''.'' = [l, r]"
      using SplitN2_hit by blast
    then show ?thesis
      by (simp add: IdentityNode esName_def resolveField_def lookupOrder_def
          split: option.splits)
  next
    case False
    then have "SplitN2 t CHR ''.'' = [t]" by (rule SplitN2_miss)
    then show ?thesis
      by (simp add: IdentityNode esName_def resolveField_def lookupOrder_def
          split: option.splits)
  qed
qed (simp_all add: esName_def resolveField_def)

text \<open>
  The legacy form \<open>key_name.field value\<close>: the first two lookups miss and the third
  finds \<open>key_name\<close>; an unknown identifier is a missing field.
\<close>

theorem esName_fallback_order_example:
  "esName exMapper (IdentityNode ''key_name.field value'' ''key_name.field value'' False) =
     (Some exNested, None)
   \<and> esName exMapper (IdentityNode ''other'' ''Other'' True) =
     (None, Some (MissingField ''Other''))
   \<and> esName exMapper (StringNode ''key_name'') =
     (None, Some (InvalidNode (StringNode ''key_name'')))"
  unfolding esName_fallback_order
  by (simp add: resolveField_def lookupOrder_def SplitN2_def exMapper_def)

section \<open>The range builder\<close>

lemma scalar_ok_set: "scalar n = (v, True) \<Longrightarrow> isSet v"
  by (cases n) (auto simp: isSet_def split: if_splits ValueType.splits option.splits)

lemma isSet_numericCoercion: "isSet v \<Longrightarrow> isSet (numericCoercion parse lhs v)"
  by (cases v) (auto simp: isSet_def numericCoercion_def split: option.splits)

lemma populated_oneBound: "isSet v \<Longrightarrow> populated (oneBound b v) = [b]"
  by (cases b) (simp_all add: populated_def oneBound_def isSet_def)

text \<open>
  A failed extraction is \<open>UnsupportedType\<close>; after a successful one \<^verbatim>\<open>makeRange\<close>
  is the numeric coercion followed by \<open>rangeFrom\<close>.
\<close>

lemma makeRange_fail:
  "scalar rhs = (v, False) \<Longrightarrow>
     makeRange parse lhs op rhs = (None, Some (UnsupportedType rhs))"
  by (simp add: makeRange_def)

lemma makeRange_steps:
  assumes "scalar rhs = (v, True)"
  shows "makeRange parse lhs op rhs = rangeFrom lhs op (numericCoercion parse lhs v)"
proof -
  note defs = makeRange_def rangeFrom_def numericCoercion_def qualify_def boundOf_def
    oneBound_def NestedEnvelope_def Let_def split_beta
  show ?thesis
  proof (cases op)
    case TokenGE
    with assms show ?thesis by (cases v) (simp_all add: defs split: option.splits)
  next
    case TokenLE
    with assms show ?thesis by (cases v) (simp_all add: defs split: option.splits)
  next
    case TokenGT
    with assms show ?thesis by (cases v) (simp_all add: defs split: option.splits)
  next
    case TokenLT
    with assms show ?thesis by (cases v) (simp_all add: defs split: option.splits)
  next
    case (TokenOther k)
    with assms show ?thesis by (cases v) (simp_all add: defs split: option.splits)
  qed
qed

lemma rangeFrom_flat:
  "boundOf op = Some b \<Longrightarrow> \<not> Nested lhs \<Longrightarrow>
     rangeFrom lhs op x = (Some (RangeFilter [(Field_ft lhs, oneBound b x)]), None)"
  by (simp add: rangeFrom_def qualify_def)

lemma rangeFrom_nested:
  "boundOf op = Some b \<Longrightarrow> Nested lhs \<Longrightarrow>
     rangeFrom lhs op x =
       (Some (NestedFilter
          (And [Term (Path lhs @ ''.k'') (VString (Field_ft lhs)),
                RangeFilter
                  [(fst (PrefixAndValue lhs x), oneBound b (snd (PrefixAndValue lhs x)))]])
          (Path lhs)),
        None)"
  by (simp add: rangeFrom_def qualify_def)

lemma rangeFrom_unsupported:
  "boundOf op = None \<Longrightarrow> rangeFrom lhs op x = (None, Some (UnsupportedOperator op))"
  by (simp add: rangeFrom_def)

text \<open>
  C2, as the code has it: when the scalar of the right-hand node is extracted and the
  operator is one of \<open>>=\<close>, \<open><=\<close>, \<open>>\<close>, \<open><\<close>, \<^verbatim>\<open>makeRange\<close> returns a range with one
  entry whose only assigned bound is the operator's. For a nested field the entry is
  keyed by the name and holds the value that \<^verbatim>\<open>PrefixAndValue\<close> returns, and the result
  is an envelope with \<^verbatim>\<open>lhs.Path\<close> around the conjunction of the term
  \<open>lhs.Path.k = lhs.Field\<close> and the range, in that order; otherwise the entry is keyed by
  \<^verbatim>\<open>lhs.Field\<close> and the range is returned as it is. The assigned bound is populated
  whenever its value is not nil, which it always is for a field that is not nested. In
  particular \<open>field >= N\<close> on a field that is not nested gives a range with GTE only and
  no envelope.
\<close>

theorem makeRange_range_filter:
  assumes "scalar rhs = (v, True)" and "boundOf op = Some b"
  shows
    "(Nested lhs \<longrightarrow>
        makeRange parse lhs op rhs =
          (Some (NestedFilter
             (And [Term (Path lhs @ ''.k'') (VString (Field_ft lhs)),
                   RangeFilter
                     [(fst (PrefixAndValue lhs (numericCoercion parse lhs v)),
                       oneBound b (snd (PrefixAndValue lhs (numericCoercion parse lhs v))))]])
             (Path lhs)),
           None))
     \<and> (isSet (snd (PrefixAndValue lhs (numericCoercion parse lhs v))) \<longrightarrow>
          populated (oneBound b (snd (PrefixAndValue lhs (numericCoercion parse lhs v))))
            = [b])
     \<and> (\<not> Nested lhs \<longrightarrow>
          makeRange parse lhs op rhs =
            (Some (RangeFilter [(Field_ft lhs, oneBound b (numericCoercion parse lhs v))]),
             None)
          \<and> populated (oneBound b (numericCoercion parse lhs v)) = [b])
     \<and> (\<not> Nested lhs \<longrightarrow>
          makeRange parse lhs TokenGE (NumberNode isInt i f) =
            (Some (RangeFilter
               [(Field_ft lhs,
                 \<lparr>GTE = (if isInt then VInt64 i else VFloat64 f),
                  LTE = VNil, GT = VNil, LT = VNil\<rparr>)]),
             None))"
proof -
  let ?w = "numericCoercion parse lhs v"
  have steps: "makeRange parse lhs op rhs = rangeFrom lhs op ?w"
    using assms(1) by (rule makeRange_steps)
  have set: "isSet ?w"
    using assms(1) by (intro isSet_numericCoercion scalar_ok_set)
  have 1: "Nested lhs \<longrightarrow> makeRange parse lhs op rhs =
      (Some (NestedFilter
         (And [Term (Path lhs @ ''.k'') (VString (Field_ft lhs)),
               RangeFilter [(fst (PrefixAndValue lhs ?w),
                 oneBound b (snd (PrefixAndValue lhs ?w)))]])
         (Path lhs)), None)"
    using assms(2) by (simp add: steps rangeFrom_nested)
  have 2: "isSet (snd (PrefixAndValue lhs ?w)) \<longrightarrow>
      populated (oneBound b (snd (PrefixAndValue lhs ?w))) = [b]"
    by (simp add: populated_oneBound)
  have 3: "\<not> Nested lhs \<longrightarrow>
      makeRange parse lhs op rhs = (Some (RangeFilter [(Field_ft lhs, oneBound b ?w)]), None)
      \<and> populated (oneBound b ?w) = [b]"
    using assms(2) set by (simp add: steps rangeFrom_flat populated_oneBound)
  have "scalar (NumberNode isInt i f) = (if isInt then VInt64 i else VFloat64 f, True)"
    by simp
  then have "makeRange parse lhs TokenGE (NumberNode isInt i f) =
      rangeFrom lhs TokenGE (numericCoercion parse lhs (if isInt then VInt64 i else VFloat64 f))"
    by (rule makeRange_steps)
  then have 4: "\<not> Nested lhs \<longrightarrow>
      makeRange parse lhs TokenGE (NumberNode isInt i f) =
        (Some (RangeFilter [(Field_ft lhs,
           \<lparr>GTE = (if isInt then VInt64 i else VFloat64 f),
            LTE = VNil, GT = VNil, LT = VNil\<rparr>)]), None)"
    by (simp add: rangeFrom_def qualify_def boundOf_def oneBound_def numericCoercion_def)
  from 1 2 3 4 show ?thesis by blast
qed

theorem makeRange_range_filter_witness:
  "makeRange exParseFloat exNested TokenGT (StringNode ''7'') =
     (Some (NestedFilter
        (And [Term ''map_events.k'' (VString ''open''),
              RangeFilter
                [(''map_events.f'',
                  \<lparr>GTE = VNil, LTE = VNil, GT = VFloat64 0x401C000000000000, LT = VNil\<rparr>)]])
        ''map_events''),
      None)
   \<and> makeRange exParseFloat exFlat TokenGE (NumberNode True 21 0) =
     (Some (RangeFilter
        [(''age'', \<lparr>GTE = VInt64 21, LTE = VNil, GT = VNil, LT = VNil\<rparr>)]),
      None)
   \<and> populated
       \<lparr>GTE = VNil, LTE = VNil, GT = VFloat64 (0x401C000000000000 :: 64 word), LT = VNil\<rparr>
     = [BoundGT]
   \<and> populated \<lparr>GTE = VInt64 21 :: 64 word val, LTE = VNil, GT = VNil, LT = VNil\<rparr>
     = [BoundGTE]"
proof -
  have a: "scalar (StringNode ''7'' :: 64 word Node) = (VString ''7'', True)" by simp
  have b: "boundOf TokenGT = Some BoundGT" by (simp add: boundOf_def)
  have c: "scalar (NumberNode True 21 0 :: 64 word Node) = (VInt64 21, True)" by simp
  have d: "boundOf TokenGE = Some BoundGTE" by (simp add: boundOf_def)
  have n: "Nested exNested" "\<not> Nested exFlat" by (simp_all add: exNested_def exFlat_def)
  from makeRange_range_filter [OF a b, of exNested exParseFloat] n(1)
  have 1: "makeRange exParseFloat exNested TokenGT (StringNode ''7'') =
     (Some (NestedFilter
        (And [Term ''map_events.k'' (VString ''open''),
              RangeFilter [(''map_events.f'',
                \<lparr>GTE = VNil, LTE = VNil, GT = VFloat64 0x401C000000000000, LT = VNil\<rparr>)]])
        ''map_events''), None)"
    by (simp add: exNested_def exParseFloat_def numericCoercion_def oneBound_def)
  from makeRange_range_filter [OF c d, of exFlat exParseFloat] n(2)
  have 2: "makeRange exParseFloat exFlat TokenGE (NumberNode True 21 0) =
     (Some (RangeFilter [(''age'', \<lparr>GTE = VInt64 21, LTE = VNil, GT = VNil, LT = VNil\<rparr>)]),
      None)"
    by (simp add: exFlat_def numericCoercion_def oneBound_def)
  from makeRange_range_filter [OF a b, of exNested exParseFloat]
  have 3: "populated
       \<lparr>GTE = VNil, LTE = VNil, GT = VFloat64 (0x401C000000000000 :: 64 word), LT = VNil\<rparr>
     = [BoundGT]"
    by (simp add: exNested_def exParseFloat_def numericCoercion_def oneBound_def isSet_def)
  from makeRange_range_filter [OF c d, of exFlat exParseFloat] n(2)
  have 4: "populated \<lparr>GTE = VInt64 21 :: 64 word val, LTE = VNil, GT = VNil, LT = VNil\<rparr>
     = [BoundGTE]"
    by (simp add: exFlat_def numericCoercion_def oneBound_def)
  from 1 2 3 4 show ?thesis by simp
qed

text \<open>
  C2 as stated fails on a nested field. The envelope does not hold the range alone: the
  term \<open>map_events.k = open\<close> stands in front of it, in a conjunction. And a bound is
  populated only if \<^verbatim>\<open>PrefixAndValue\<close> returns a value for it: when it returns nil, the
  range has no populated bound.
\<close>

theorem makeRange_range_filter_counterexample:
  "makeRange exParseFloat exNested TokenGT (StringNode ''7'') =
     (Some (NestedFilter
        (And [Term ''map_events.k'' (VString ''open''),
              RangeFilter
                [(''map_events.f'',
                  \<lparr>GTE = VNil, LTE = VNil, GT = VFloat64 0x401C000000000000, LT = VNil\<rparr>)]])
        ''map_events''),
      None)
   \<and> makeRange exParseFloat exNested TokenGT (StringNode ''7'') \<noteq>
     (Some (NestedFilter
        (RangeFilter
           [(''map_events.f'',
             \<lparr>GTE = VNil, LTE = VNil, GT = VFloat64 0x401C000000000000, LT = VNil\<rparr>)])
        ''map_events''),
      None)
   \<and> makeRange exParseFloat exNilValue TokenGT (StringNode ''7'') =
     (Some (NestedFilter
        (And [Term ''map_events.k'' (VString ''open''),
              RangeFilter
                [(''map_events.f'', \<lparr>GTE = VNil, LTE = VNil, GT = VNil, LT = VNil\<rparr>)]])
        ''map_events''),
      None)
   \<and> populated \<lparr>GTE = VNil :: 64 word val, LTE = VNil, GT = VNil, LT = VNil\<rparr> = []"
  by (simp add: makeRange_def NestedEnvelope_def exNested_def exNilValue_def
      exParseFloat_def populated_def isSet_def)

text \<open>
  C6, as the code has it: with the scalar \<open>v\<close> extracted, a numeric field and a string
  \<open>v\<close> that parses as a float make the builder continue with the parsed float, before
  qualification and before the range is built; a field that is not numeric, a scalar
  that is not a string and a string that does not parse make it continue with \<open>v\<close>
  unchanged. The value it continues with is embedded as it is for a field that is not
  nested; for a nested field the embedded value is the one \<^verbatim>\<open>PrefixAndValue\<close> returns
  for it.
\<close>

theorem makeRange_numeric_coercion:
  assumes "scalar rhs = (v, True)"
  shows
    "(\<forall>s f. Numeric lhs \<and> v = VString s \<and> parse s = Some f \<longrightarrow>
        makeRange parse lhs op rhs = rangeFrom lhs op (VFloat64 f))
     \<and> (\<not> Numeric lhs \<longrightarrow> makeRange parse lhs op rhs = rangeFrom lhs op v)
     \<and> ((\<forall>s. v \<noteq> VString s) \<longrightarrow> makeRange parse lhs op rhs = rangeFrom lhs op v)
     \<and> (\<forall>s. v = VString s \<and> parse s = None \<longrightarrow>
          makeRange parse lhs op rhs = rangeFrom lhs op v)
     \<and> (\<forall>x b. boundOf op = Some b \<and> \<not> Nested lhs \<longrightarrow>
          rangeFrom lhs op x = (Some (RangeFilter [(Field_ft lhs, oneBound b x)]), None))
     \<and> (\<forall>x b. boundOf op = Some b \<and> Nested lhs \<longrightarrow>
          rangeFrom lhs op x =
            (Some (NestedFilter
               (And [Term (Path lhs @ ''.k'') (VString (Field_ft lhs)),
                     RangeFilter
                       [(fst (PrefixAndValue lhs x),
                         oneBound b (snd (PrefixAndValue lhs x)))]])
               (Path lhs)),
             None))
     \<and> (\<forall>x. boundOf op = None \<longrightarrow>
          rangeFrom lhs op x = (None, Some (UnsupportedOperator op)))"
proof -
  have steps: "makeRange parse lhs op rhs = rangeFrom lhs op (numericCoercion parse lhs v)"
    using assms by (rule makeRange_steps)
  have 1: "\<forall>s f. Numeric lhs \<and> v = VString s \<and> parse s = Some f \<longrightarrow>
      numericCoercion parse lhs v = VFloat64 f"
    by (simp add: numericCoercion_def)
  have 2: "\<not> Numeric lhs \<longrightarrow> numericCoercion parse lhs v = v"
    by (cases v) (simp_all add: numericCoercion_def)
  have 3: "(\<forall>s. v \<noteq> VString s) \<longrightarrow> numericCoercion parse lhs v = v"
    by (cases v) (simp_all add: numericCoercion_def)
  have 4: "\<forall>s. v = VString s \<and> parse s = None \<longrightarrow> numericCoercion parse lhs v = v"
    by (simp add: numericCoercion_def)
  have coercion:
    "(\<forall>s f. Numeric lhs \<and> v = VString s \<and> parse s = Some f \<longrightarrow>
        makeRange parse lhs op rhs = rangeFrom lhs op (VFloat64 f))
     \<and> (\<not> Numeric lhs \<longrightarrow> makeRange parse lhs op rhs = rangeFrom lhs op v)
     \<and> ((\<forall>s. v \<noteq> VString s) \<longrightarrow> makeRange parse lhs op rhs = rangeFrom lhs op v)
     \<and> (\<forall>s. v = VString s \<and> parse s = None \<longrightarrow>
          makeRange parse lhs op rhs = rangeFrom lhs op v)"
    using 1 2 3 4 unfolding steps by metis
  have flat: "\<forall>x b. boundOf op = Some b \<and> \<not> Nested lhs \<longrightarrow>
      rangeFrom lhs op x = (Some (RangeFilter [(Field_ft lhs, oneBound b x)]), None)"
    by (simp add: rangeFrom_flat)
  have nested: "\<forall>x b. boundOf op = Some b \<and> Nested lhs \<longrightarrow>
      rangeFrom lhs op x =
        (Some (NestedFilter
           (And [Term (Path lhs @ ''.k'') (VString (Field_ft lhs)),
                 RangeFilter
                   [(fst (PrefixAndValue lhs x), oneBound b (snd (PrefixAndValue lhs x)))]])
           (Path lhs)),
         None)"
    by (simp add: rangeFrom_nested)
  have unsupported: "\<forall>x. boundOf op = None \<longrightarrow>
      rangeFrom lhs op x = (None, Some (UnsupportedOperator op))"
    by (simp add: rangeFrom_unsupported)
  from coercion flat nested unsupported show ?thesis by (intro conjI) blast+
qed

theorem makeRange_numeric_coercion_witness:
  "makeRange exParseFloat exNested TokenGE (StringNode ''7'') =
     (Some (NestedFilter
        (And [Term ''map_events.k'' (VString ''open''),
              RangeFilter
                [(''map_events.f'',
                  \<lparr>GTE = VFloat64 0x401C000000000000, LTE = VNil, GT = VNil, LT = VNil\<rparr>)]])
        ''map_events''),
      None)
   \<and> makeRange exParseFloat exFlat TokenGE (StringNode ''x7'') =
     (Some (RangeFilter
        [(''age'', \<lparr>GTE = VString ''x7'', LTE = VNil, GT = VNil, LT = VNil\<rparr>)]),
      None)
   \<and> makeRange exParseFloat exFlat TokenGE (NumberNode True 7 0) =
     (Some (RangeFilter
        [(''age'', \<lparr>GTE = VInt64 7, LTE = VNil, GT = VNil, LT = VNil\<rparr>)]),
      None)
   \<and> makeRange exParseFloat (exFlat\<lparr>Numeric := False\<rparr>) TokenGE (StringNode ''7'') =
     (Some (RangeFilter
        [(''age'', \<lparr>GTE = VString ''7'', LTE = VNil, GT = VNil, LT = VNil\<rparr>)]),
      None)
   \<and> makeRange exParseFloat exFlat (TokenOther 0) (StringNode ''7'') =
     (None, Some (UnsupportedOperator (TokenOther 0)))"
proof -
  have a: "scalar (StringNode ''7'' :: 64 word Node) = (VString ''7'', True)" by simp
  have b: "scalar (StringNode ''x7'' :: 64 word Node) = (VString ''x7'', True)" by simp
  have c: "scalar (NumberNode True 7 0 :: 64 word Node) = (VInt64 7, True)" by simp
  have p: "exParseFloat ''7'' = Some 0x401C000000000000" "exParseFloat ''x7'' = None"
    by (simp_all add: exParseFloat_def)
  have ge: "boundOf TokenGE = Some BoundGTE" and other: "boundOf (TokenOther 0) = None"
    by (simp_all add: boundOf_def)
  have n: "Nested exNested" "\<not> Nested exFlat" "\<not> Nested (exFlat\<lparr>Numeric := False\<rparr>)"
    by (simp_all add: exNested_def exFlat_def)
  have 1: "makeRange exParseFloat exNested TokenGE (StringNode ''7'') =
     (Some (NestedFilter
        (And [Term ''map_events.k'' (VString ''open''),
              RangeFilter [(''map_events.f'',
                \<lparr>GTE = VFloat64 0x401C000000000000, LTE = VNil, GT = VNil, LT = VNil\<rparr>)]])
        ''map_events''), None)"
    using makeRange_numeric_coercion [OF a, of exNested exParseFloat TokenGE] p(1) ge n(1)
    by (simp add: exNested_def oneBound_def)
  have 2: "makeRange exParseFloat exFlat TokenGE (StringNode ''x7'') =
     (Some (RangeFilter
        [(''age'', \<lparr>GTE = VString ''x7'', LTE = VNil, GT = VNil, LT = VNil\<rparr>)]), None)"
    using makeRange_numeric_coercion [OF b, of exFlat exParseFloat TokenGE] p(2) ge n(2)
    by (simp add: exFlat_def oneBound_def)
  have 3: "makeRange exParseFloat exFlat TokenGE (NumberNode True 7 0) =
     (Some (RangeFilter
        [(''age'', \<lparr>GTE = VInt64 7, LTE = VNil, GT = VNil, LT = VNil\<rparr>)]), None)"
    using makeRange_numeric_coercion [OF c, of exFlat exParseFloat TokenGE] ge n(2)
    by (simp add: exFlat_def oneBound_def)
  have 4: "makeRange exParseFloat (exFlat\<lparr>Numeric := False\<rparr>) TokenGE (StringNode ''7'') =
     (Some (RangeFilter
        [(''age'', \<lparr>GTE = VString ''7'', LTE = VNil, GT = VNil, LT = VNil\<rparr>)]), None)"
    using makeRange_numeric_coercion
      [OF a, of "exFlat\<lparr>Numeric := False\<rparr>" exParseFloat TokenGE] ge n(3)
    by (simp add: exFlat_def oneBound_def)
  have 5: "makeRange exParseFloat exFlat (TokenOther 0) (StringNode ''7'') =
     (None, Some (UnsupportedOperator (TokenOther 0)))"
    using makeRange_numeric_coercion [OF a, of exFlat exParseFloat "TokenOther 0"] p(1) other
    by (simp add: exFlat_def)
  from 1 2 3 4 5 show ?thesis by simp
qed

text \<open>
  C6 as stated fails on a nested field: the field \<open>visits\<close> is not numeric, so the
  scalar \<open>7\<close>, a string, is not coerced, yet the range does not embed it unchanged: it
  embeds the integer 7 that \<^verbatim>\<open>PrefixAndValue\<close> returns for it.
\<close>

theorem makeRange_numeric_coercion_counterexample:
  "scalar (StringNode ''7'' :: 64 word Node) = (VString ''7'', True)
   \<and> \<not> Numeric exRewrite
   \<and> makeRange exParseFloat exRewrite TokenGE (StringNode ''7'') =
     (Some (NestedFilter
        (And [Term ''map_events.k'' (VString ''visits''),
              RangeFilter
                [(''map_events.i'',
                  \<lparr>GTE = VInt64 7, LTE = VNil, GT = VNil, LT = VNil\<rparr>)]])
        ''map_events''),
      None)
   \<and> (VInt64 7 :: 64 word val) \<noteq> VString ''7''"
  by (simp add: makeRange_def NestedEnvelope_def exRewrite_def)

section \<open>Errors of the builders\<close>

text \<open>
  C9: \<^verbatim>\<open>makeRange\<close> returns an error exactly when the scalar extraction fails or the
  operator is not one of the four; the error is \<open>UnsupportedType\<close> in the first case
  and \<open>UnsupportedOperator\<close> in the second, and no filter is returned with it. The
  other three builders return a filter and no error on every input.
\<close>

theorem builders_errors:
  "(snd (makeRange parse lhs op rhs) \<noteq> None \<longleftrightarrow>
      \<not> snd (scalar rhs) \<or> op \<notin> {TokenGE, TokenLE, TokenGT, TokenLT})
   \<and> (\<not> snd (scalar rhs) \<longrightarrow>
        makeRange parse lhs op rhs = (None, Some (UnsupportedType rhs)))
   \<and> (snd (scalar rhs) \<and> op \<notin> {TokenGE, TokenLE, TokenGT, TokenLT} \<longrightarrow>
        makeRange parse lhs op rhs = (None, Some (UnsupportedOperator op)))
   \<and> (snd (makeRange parse lhs op rhs) \<noteq> None \<longrightarrow> fst (makeRange parse lhs op rhs) = None)
   \<and> (snd (makeRange parse lhs op rhs) = None \<longrightarrow> fst (makeRange parse lhs op rhs) \<noteq> None)
   \<and> snd (makeBetween lhs lower upper) = None
   \<and> fst (makeBetween lhs lower upper) \<noteq> None
   \<and> snd (makeWildcard lhs pattern) = None
   \<and> fst (makeWildcard lhs pattern) \<noteq> None
   \<and> snd (makeTimeWindowQuery lhs threshold window ts) = None
   \<and> fst (makeTimeWindowQuery lhs threshold window ts) \<noteq> None"
proof -
  have ops: "op \<notin> {TokenGE, TokenLE, TokenGT, TokenLT} \<longleftrightarrow> boundOf op = None"
    by (cases op) (simp_all add: boundOf_def)
  obtain v ok where sc: "scalar rhs = (v, ok)" by (cases "scalar rhs")
  have range:
    "(snd (makeRange parse lhs op rhs) \<noteq> None \<longleftrightarrow> \<not> ok \<or> boundOf op = None)
     \<and> (\<not> ok \<longrightarrow> makeRange parse lhs op rhs = (None, Some (UnsupportedType rhs)))
     \<and> (ok \<and> boundOf op = None \<longrightarrow>
          makeRange parse lhs op rhs = (None, Some (UnsupportedOperator op)))
     \<and> (snd (makeRange parse lhs op rhs) \<noteq> None \<longrightarrow> fst (makeRange parse lhs op rhs) = None)
     \<and> (snd (makeRange parse lhs op rhs) = None \<longrightarrow> fst (makeRange parse lhs op rhs) \<noteq> None)"
  proof (cases ok)
    case False
    with sc show ?thesis by (simp add: makeRange_fail)
  next
    case True
    with sc have "makeRange parse lhs op rhs = rangeFrom lhs op (numericCoercion parse lhs v)"
      by (simp add: makeRange_steps)
    with True show ?thesis
      by (cases "boundOf op") (simp_all add: rangeFrom_def Let_def)
  qed
  have between: "snd (makeBetween lhs lower upper) = None \<and> fst (makeBetween lhs lower upper) \<noteq> None"
    by (simp add: makeBetween_def Let_def)
  have wildcard: "snd (makeWildcard lhs pattern) = None \<and> fst (makeWildcard lhs pattern) \<noteq> None"
    by (simp add: makeWildcard_def Wildcard_def Let_def)
  have window: "snd (makeTimeWindowQuery lhs threshold window ts) = None
      \<and> fst (makeTimeWindowQuery lhs threshold window ts) \<noteq> None"
    by (simp add: makeTimeWindowQuery_def Let_def)
  from range between wildcard window show ?thesis
    unfolding ops using sc by simp
qed

theorem builders_errors_witness:
  "makeRange exParseFloat exFlat TokenGE (OtherNode ''NullNode'') =
     (None, Some (UnsupportedType (OtherNode ''NullNode'')))
   \<and> makeRange exParseFloat exFlat (TokenOther 0) (StringNode ''7'') =
     (None, Some (UnsupportedOperator (TokenOther 0)))
   \<and> fst (makeRange exParseFloat exFlat TokenGE (StringNode ''7'')) \<noteq> None"
proof -
  have 1: "makeRange exParseFloat exFlat TokenGE (OtherNode ''NullNode'') =
      (None, Some (UnsupportedType (OtherNode ''NullNode'')))"
    using builders_errors [of exParseFloat exFlat TokenGE "OtherNode ''NullNode''"]
    by simp
  have 2: "makeRange exParseFloat exFlat (TokenOther 0) (StringNode ''7'') =
      (None, Some (UnsupportedOperator (TokenOther 0)))"
    using builders_errors [of exParseFloat exFlat "TokenOther 0" "StringNode ''7''"]
    by simp
  have 3: "fst (makeRange exParseFloat exFlat TokenGE (StringNode ''7'')) \<noteq> None"
    using builders_errors [of exParseFloat exFlat TokenGE "StringNode ''7''"]
    by simp
  from 1 2 3 show ?thesis by simp
qed

section \<open>The between builder\<close>

text \<open>
  C3: \<^verbatim>\<open>makeBetween\<close> builds a GT range of the lower bound and an LT range of the
  upper bound, both keyed on \<^verbatim>\<open>lhs.Field\<close>. For a nested field it appends the term
  \<open>k = lhs.Field\<close> and wraps the conjunction of the three clauses, in that order, in an
  envelope with \<^verbatim>\<open>lhs.Path\<close>; otherwise it returns the conjunction of the two ranges.
\<close>

theorem makeBetween_clauses:
  "makeBetween lhs lower upper =
     (if Nested lhs then
        (Some (NestedFilter
           (And [RangeFilter [(Field_ft lhs, oneBound BoundGT lower)],
                 RangeFilter [(Field_ft lhs, oneBound BoundLT upper)],
                 Term ''k'' (VString (Field_ft lhs))])
           (Path lhs)),
         None)
      else
        (Some (And [RangeFilter [(Field_ft lhs, oneBound BoundGT lower)],
                    RangeFilter [(Field_ft lhs, oneBound BoundLT upper)]]),
         None))"
  by (simp add: makeBetween_def oneBound_def Let_def)

theorem makeBetween_clauses_example:
  "makeBetween exNested (VInt64 7) (VInt64 15) =
     (Some (NestedFilter
        (And [RangeFilter
                [(''open'', \<lparr>GTE = VNil, LTE = VNil, GT = VInt64 7, LT = VNil\<rparr>)],
              RangeFilter
                [(''open'', \<lparr>GTE = VNil, LTE = VNil, GT = VNil, LT = VInt64 15\<rparr>)],
              Term ''k'' (VString ''open'')])
        ''map_events''),
      None)"
  unfolding makeBetween_clauses by (simp add: exNested_def oneBound_def)

text \<open>
  C10: for every field and every pair of values \<^verbatim>\<open>makeBetween\<close> succeeds, and the
  entries of its two ranges hold the lower value as GT and the upper value as LT, as
  given: neither the numeric coercion nor \<^verbatim>\<open>PrefixAndValue\<close> touches them, whatever the
  field is.
\<close>

theorem makeBetween_bounds_unmodified:
  "\<exists>f. makeBetween lhs lower upper = (Some f, None)
       \<and> rangeEntries f =
           [(Field_ft lhs, \<lparr>GTE = VNil, LTE = VNil, GT = lower, LT = VNil\<rparr>),
            (Field_ft lhs, \<lparr>GTE = VNil, LTE = VNil, GT = VNil, LT = upper\<rparr>)]"
  by (simp add: makeBetween_def Let_def)

text \<open>
  On a nested numeric field the string \<open>7\<close> stays a string between the bounds, where
  the range builder turns it into a float.
\<close>

theorem makeBetween_bounds_unmodified_example:
  "(\<exists>f. makeBetween exNested (VString ''7'') (VString ''x'') = (Some f, None)
       \<and> map snd (rangeEntries f) =
           [\<lparr>GTE = VNil, LTE = VNil, GT = VString ''7'', LT = VNil\<rparr>,
            \<lparr>GTE = VNil, LTE = VNil, GT = VNil, LT = VString ''x''\<rparr>])
   \<and> Numeric exNested \<and> Nested exNested
   \<and> (\<exists>f. makeRange exParseFloat exNested TokenGT (StringNode ''7'') = (Some f, None)
       \<and> map snd (rangeEntries f) =
           [\<lparr>GTE = VNil, LTE = VNil, GT = VFloat64 0x401C000000000000, LT = VNil\<rparr>])"
proof -
  from makeBetween_bounds_unmodified [of exNested "VString ''7''" "VString ''x''"]
  obtain f where f: "makeBetween exNested (VString ''7'') (VString ''x'') = (Some f, None)"
    "rangeEntries f =
       [(Field_ft exNested, \<lparr>GTE = VNil, LTE = VNil, GT = VString ''7'', LT = VNil\<rparr>),
        (Field_ft exNested, \<lparr>GTE = VNil, LTE = VNil, GT = VNil, LT = VString ''x''\<rparr>)]"
    by blast
  have 1: "\<exists>f. makeBetween exNested (VString ''7'') (VString ''x'') = (Some f, None)
       \<and> map snd (rangeEntries f) =
           [\<lparr>GTE = VNil, LTE = VNil, GT = VString ''7'', LT = VNil\<rparr>,
            \<lparr>GTE = VNil, LTE = VNil, GT = VNil, LT = VString ''x''\<rparr>]"
    using f by simp
  have 2: "Numeric exNested \<and> Nested exNested" by (simp add: exNested_def)
  have 3: "\<exists>f. makeRange exParseFloat exNested TokenGT (StringNode ''7'') = (Some f, None)
       \<and> map snd (rangeEntries f) =
           [\<lparr>GTE = VNil, LTE = VNil, GT = VFloat64 0x401C000000000000, LT = VNil\<rparr>]"
    by (simp add: makeRange_def exNested_def exParseFloat_def NestedEnvelope_def)
  from 1 2 3 show ?thesis by blast
qed

section \<open>The wildcard builder\<close>

lemma wcFunc_kept:
  "v = [] \<or> hd v = CHR ''*'' \<or> last v = CHR ''*'' \<Longrightarrow> wcFunc v = v"
  by (cases "v = []") (auto simp: wcFunc_def hd_conv_nth last_conv_nth)

lemma wcFunc_wrapped:
  "v \<noteq> [] \<Longrightarrow> hd v \<noteq> CHR ''*'' \<Longrightarrow> last v \<noteq> CHR ''*'' \<Longrightarrow> wcFunc v = ''*'' @ v @ ''*''"
  by (simp add: wcFunc_def hd_conv_nth last_conv_nth)

text \<open>
  C4, as the code has it: \<^verbatim>\<open>makeWildcard\<close> qualifies the field name for a nested field,
  with \<^verbatim>\<open>lhs.PathAndPrefix\<close> of the pattern as given, and hands the pattern as given to
  the helper \<^verbatim>\<open>Wildcard\<close>, which stores it unchanged when it is empty or begins or ends
  with \<open>*\<close> and between two \<open>*\<close> otherwise. For a nested field the result is, in an
  envelope with \<^verbatim>\<open>lhs.Path\<close>, the conjunction of that wildcard followed by the term
  \<open>lhs.Path.k = lhs.Field\<close>; otherwise it is the wildcard on \<^verbatim>\<open>lhs.Field\<close> alone.
\<close>

theorem makeWildcard_clauses:
  "makeWildcard lhs pattern =
     (if Nested lhs then
        (Some (NestedFilter
           (And [WildcardFilter (PathAndPrefix lhs pattern) (wcFunc pattern),
                 Term (Path lhs @ ''.k'') (VString (Field_ft lhs))])
           (Path lhs)),
         None)
      else (Some (WildcardFilter (Field_ft lhs) (wcFunc pattern)), None))
   \<and> (pattern = [] \<or> hd pattern = CHR ''*'' \<or> last pattern = CHR ''*'' \<longrightarrow>
        wcFunc pattern = pattern)
   \<and> (pattern \<noteq> [] \<and> hd pattern \<noteq> CHR ''*'' \<and> last pattern \<noteq> CHR ''*'' \<longrightarrow>
        wcFunc pattern = ''*'' @ pattern @ ''*'')"
proof -
  have "makeWildcard lhs pattern =
     (if Nested lhs then
        (Some (NestedFilter
           (And [WildcardFilter (PathAndPrefix lhs pattern) (wcFunc pattern),
                 Term (Path lhs @ ''.k'') (VString (Field_ft lhs))])
           (Path lhs)),
         None)
      else (Some (WildcardFilter (Field_ft lhs) (wcFunc pattern)), None))"
    by (simp add: makeWildcard_def Wildcard_def Let_def)
  then show ?thesis using wcFunc_kept [of pattern] wcFunc_wrapped [of pattern] by blast
qed

theorem makeWildcard_clauses_example:
  "makeWildcard exNested ''hel'' =
     (Some (NestedFilter
        (And [WildcardFilter ''map_events.v'' ''*hel*'',
              Term ''map_events.k'' (VString ''open'')])
        ''map_events''),
      None)
   \<and> makeWildcard exFlat ''hel*'' = (Some (WildcardFilter ''age'' ''hel*''), None)
   \<and> makeWildcard exFlat ''*hel'' = (Some (WildcardFilter ''age'' ''*hel''), None)
   \<and> makeWildcard exFlat [] = (Some (WildcardFilter ''age'' []), None)"
proof -
  have 1: "wcFunc ''hel'' = ''*hel*''"
    using makeWildcard_clauses [of exNested "''hel''"] by simp
  have 2: "wcFunc ''hel*'' = ''hel*''"
    using makeWildcard_clauses [of exFlat "''hel*''"] by simp
  have 3: "wcFunc ''*hel'' = ''*hel''"
    using makeWildcard_clauses [of exFlat "''*hel''"] by simp
  have 4: "wcFunc [] = []"
    using makeWildcard_clauses [of exFlat "[]"] by simp
  have n: "Nested exNested" "\<not> Nested exFlat" by (simp_all add: exNested_def exFlat_def)
  from makeWildcard_clauses [of exNested "''hel''"] n(1) 1
  have a: "makeWildcard exNested ''hel'' =
     (Some (NestedFilter
        (And [WildcardFilter ''map_events.v'' ''*hel*'',
              Term ''map_events.k'' (VString ''open'')])
        ''map_events''), None)"
    by (simp add: exNested_def)
  from makeWildcard_clauses [of exFlat "''hel*''"] n(2) 2
  have b: "makeWildcard exFlat ''hel*'' = (Some (WildcardFilter ''age'' ''hel*''), None)"
    by (simp add: exFlat_def)
  from makeWildcard_clauses [of exFlat "''*hel''"] n(2) 3
  have c: "makeWildcard exFlat ''*hel'' = (Some (WildcardFilter ''age'' ''*hel''), None)"
    by (simp add: exFlat_def)
  from makeWildcard_clauses [of exFlat "[]"] n(2) 4
  have d: "makeWildcard exFlat [] = (Some (WildcardFilter ''age'' []), None)"
    by (simp add: exFlat_def)
  from a b c d show ?thesis by simp
qed

text \<open>
  C4 as stated fails: the pattern \<open>hel\<close> is not left unchanged, the wildcard holds
  \<open>*hel*\<close>.
\<close>

theorem makeWildcard_clauses_counterexample:
  "makeWildcard exFlat ''hel'' = (Some (WildcardFilter ''age'' ''*hel*''), None)
   \<and> makeWildcard exFlat ''hel'' \<noteq> (Some (WildcardFilter ''age'' ''hel''), None)"
  by (simp add: makeWildcard_def Wildcard_def wcFunc_def exFlat_def)

section \<open>The time-window builder\<close>

lemma digit_cases:
  "d < (10::nat) \<Longrightarrow>
     d = 0 \<or> d = 1 \<or> d = 2 \<or> d = 3 \<or> d = 4 \<or> d = 5 \<or> d = 6 \<or> d = 7 \<or> d = 8 \<or> d = 9"
  by arith

lemma digitValue_digitChar: "d < 10 \<Longrightarrow> digitValue (digitChar d) = d"
  by (drule digit_cases, elim disjE) (simp_all add: digitChar_def digitValue_def)

lemma digitChar_not_minus: "d < 10 \<Longrightarrow> digitChar d \<noteq> CHR ''-''"
  by (drule digit_cases, elim disjE) (simp_all add: digitChar_def)

lemma natOfDigits_snoc: "natOfDigits (ds @ [c]) = 10 * natOfDigits ds + digitValue c"
  by (simp add: natOfDigits_def)

lemma natOfDigits_single: "natOfDigits [c] = digitValue c"
  by (simp add: natOfDigits_def)

lemma natOfDigits_digitsOf: "natOfDigits (digitsOf 10 u) = u"
proof (induction u rule: less_induct)
  case (less u)
  show ?case
  proof (cases "u < 10")
    case True
    then have "digitsOf 10 u = [digitChar u]" by (subst digitsOf.simps) simp
    with True show ?thesis by (simp add: natOfDigits_single digitValue_digitChar)
  next
    case False
    then have eq: "digitsOf 10 u = digitsOf 10 (u div 10) @ [digitChar (u mod 10)]"
      by (subst digitsOf.simps) simp
    from False have "u div 10 < u" by simp
    then have "natOfDigits (digitsOf 10 (u div 10)) = u div 10" by (rule less.IH)
    then show ?thesis
      by (simp add: eq natOfDigits_snoc digitValue_digitChar)
  qed
qed

lemma digitsOf_head: "digitsOf 10 u \<noteq> [] \<and> hd (digitsOf 10 u) \<noteq> CHR ''-''"
proof (induction u rule: less_induct)
  case (less u)
  show ?case
  proof (cases "u < 10")
    case True
    then have "digitsOf 10 u = [digitChar u]" by (subst digitsOf.simps) simp
    with True show ?thesis by (simp add: digitChar_not_minus)
  next
    case False
    then have eq: "digitsOf 10 u = digitsOf 10 (u div 10) @ [digitChar (u mod 10)]"
      by (subst digitsOf.simps) simp
    from False have "u div 10 < u" by simp
    then have "digitsOf 10 (u div 10) \<noteq> [] \<and> hd (digitsOf 10 (u div 10)) \<noteq> CHR ''-''"
      by (rule less.IH)
    then show ?thesis by (simp add: eq)
  qed
qed

text \<open>
  \<^verbatim>\<open>FormatInt\<close> in base 10 writes its argument in decimal.
\<close>

lemma decimalValue_FormatInt: "decimalValue (FormatInt i 10) = sint i"
proof (cases "sint i < 0")
  case True
  then show ?thesis by (simp add: FormatInt_def decimalValue_def natOfDigits_digitsOf)
next
  case False
  obtain c ds where ds: "digitsOf 10 (nat (sint i)) = c # ds" "c \<noteq> CHR ''-''"
    using digitsOf_head [of "nat (sint i)"] by (cases "digitsOf 10 (nat (sint i))") auto
  have "natOfDigits (c # ds) = nat (sint i)"
    using natOfDigits_digitsOf [of "nat (sint i)"] by (simp add: ds(1))
  with False ds show ?thesis by (simp add: FormatInt_def decimalValue_def)
qed

text \<open>
  C5: \<^verbatim>\<open>makeTimeWindowQuery\<close> returns, in an envelope whose path is \<^verbatim>\<open>lhs.Field\<close>, the
  conjunction of four clauses in this order: the term \<open>lhs.Field.threshold\<close> with the
  threshold in decimal, the term \<open>lhs.Field.window\<close> with the window in decimal, the
  range \<open>lhs.Field.enter\<close> with LTE only, the range \<open>lhs.Field.exit\<close> with GTE only,
  both bounds being the timestamp.
\<close>

theorem makeTimeWindowQuery_clauses:
  "makeTimeWindowQuery lhs threshold window ts =
     (Some (NestedFilter
        (And [Term (Field_ft lhs @ ''.threshold'') (VString (FormatInt threshold 10)),
              Term (Field_ft lhs @ ''.window'') (VString (FormatInt window 10)),
              RangeFilter [(Field_ft lhs @ ''.enter'', oneBound BoundLTE (VInt64 ts))],
              RangeFilter [(Field_ft lhs @ ''.exit'', oneBound BoundGTE (VInt64 ts))]])
        (Field_ft lhs)),
      None)
   \<and> decimalValue (FormatInt threshold 10) = sint threshold
   \<and> decimalValue (FormatInt window 10) = sint window
   \<and> populated (oneBound BoundLTE (VInt64 ts :: 'f val)) = [BoundLTE]
   \<and> populated (oneBound BoundGTE (VInt64 ts :: 'f val)) = [BoundGTE]"
  by (simp add: makeTimeWindowQuery_def oneBound_def Let_def decimalValue_FormatInt
      populated_def isSet_def)

theorem makeTimeWindowQuery_clauses_example:
  "makeTimeWindowQuery exBucket 1 3 16916 =
     (Some (NestedFilter
        (And [Term ''timebucket_visits.threshold'' (VString ''1''),
              Term ''timebucket_visits.window'' (VString ''3''),
              RangeFilter
                [(''timebucket_visits.enter'',
                  \<lparr>GTE = VNil, LTE = VInt64 16916, GT = VNil, LT = VNil\<rparr>)],
              RangeFilter
                [(''timebucket_visits.exit'',
                  \<lparr>GTE = VInt64 16916, LTE = VNil, GT = VNil, LT = VNil\<rparr>)]])
        ''timebucket_visits''),
      None)"
proof -
  have "FormatInt 1 10 = ''1''" "FormatInt 3 10 = ''3''"
    by (simp_all add: FormatInt_def digitsOf.simps [of 10 "Suc 0"] digitsOf.simps [of 10 3]
        digitChar_def)
  moreover have "Field_ft exBucket = ''timebucket_visits''"
    by (simp add: exBucket_def)
  ultimately show ?thesis
    unfolding makeTimeWindowQuery_clauses [of exBucket 1 3 16916, THEN conjunct1]
    by (simp add: oneBound_def)
qed

section \<open>Envelopes\<close>

text \<open>
  C8: every filter a builder returns has exactly the envelopes it should. For
  \<^verbatim>\<open>makeRange\<close>, \<^verbatim>\<open>makeBetween\<close> and \<^verbatim>\<open>makeWildcard\<close> a nested field gives one
  envelope, the filter itself, with path \<^verbatim>\<open>lhs.Path\<close>, and a field that is not nested
  gives none; \<^verbatim>\<open>makeTimeWindowQuery\<close> always gives one envelope, the filter itself, with
  path \<^verbatim>\<open>lhs.Field\<close>.
\<close>

theorem nested_envelopes:
  "(\<forall>f. fst (makeRange parse lhs op rhs) = Some f \<longrightarrow>
       envelopes f = (if Nested lhs then [Path lhs] else []) \<and> isEnvelope f = Nested lhs)
   \<and> (\<exists>f. fst (makeBetween lhs lower upper) = Some f
        \<and> envelopes f = (if Nested lhs then [Path lhs] else [])
        \<and> isEnvelope f = Nested lhs)
   \<and> (\<exists>f. fst (makeWildcard lhs pattern) = Some f
        \<and> envelopes f = (if Nested lhs then [Path lhs] else [])
        \<and> isEnvelope f = Nested lhs)
   \<and> (\<exists>f. fst (makeTimeWindowQuery lhs threshold window ts) = Some f
        \<and> envelopes f = [Field_ft lhs]
        \<and> isEnvelope f)"
proof -
  obtain v ok where sc: "scalar rhs = (v, ok)" by (cases "scalar rhs")
  have range: "\<forall>f. fst (makeRange parse lhs op rhs) = Some f \<longrightarrow>
       envelopes f = (if Nested lhs then [Path lhs] else []) \<and> isEnvelope f = Nested lhs"
  proof (cases ok)
    case False
    with sc show ?thesis by (simp add: makeRange_fail)
  next
    case True
    with sc have "makeRange parse lhs op rhs = rangeFrom lhs op (numericCoercion parse lhs v)"
      by (simp add: makeRange_steps)
    then show ?thesis
      by (cases "boundOf op") (simp_all add: rangeFrom_def Let_def)
  qed
  have between: "\<exists>f. fst (makeBetween lhs lower upper) = Some f
        \<and> envelopes f = (if Nested lhs then [Path lhs] else [])
        \<and> isEnvelope f = Nested lhs"
    by (simp add: makeBetween_def Let_def)
  have wildcard: "\<exists>f. fst (makeWildcard lhs pattern) = Some f
        \<and> envelopes f = (if Nested lhs then [Path lhs] else [])
        \<and> isEnvelope f = Nested lhs"
    by (simp add: makeWildcard_def Wildcard_def Let_def)
  have window: "\<exists>f. fst (makeTimeWindowQuery lhs threshold window ts) = Some f
        \<and> envelopes f = [Field_ft lhs] \<and> isEnvelope f"
    by (simp add: makeTimeWindowQuery_def Let_def)
  from range between wildcard window show ?thesis by blast
qed

theorem nested_envelopes_witness:
  "\<exists>f. fst (makeRange exParseFloat exNested TokenLT (StringNode ''7'')) = Some f
      \<and> envelopes f = [''map_events''] \<and> isEnvelope f"
proof -
  have "fst (makeRange exParseFloat exNested TokenLT (StringNode ''7'')) =
      Some (NestedFilter
        (And [Term ''map_events.k'' (VString ''open''),
              RangeFilter [(''map_events.f'',
                \<lparr>GTE = VNil, LTE = VNil, GT = VNil, LT = VFloat64 0x401C000000000000\<rparr>)]])
        ''map_events'')"
    (is "_ = Some ?f")
    by (simp add: makeRange_def exNested_def exParseFloat_def NestedEnvelope_def)
  moreover from this
    nested_envelopes [of exParseFloat exNested TokenLT "StringNode ''7''"]
  have "envelopes ?f = [''map_events''] \<and> isEnvelope ?f"
    by (simp add: exNested_def)
  ultimately show ?thesis by blast
qed

end
